theory Spec2Isabelle
  imports Main
begin

section \<open>Values of the host language\<close>

text \<open>
  A query key is a \<^verbatim>\<open>readonly unknown[]\<close>: its segments are arbitrary values of the
  host language. Primitives are compared by \<^verbatim>\<open>===\<close> through their value, objects
  through their reference, so an object carries the identity of its allocation next to its
  own properties. Numbers are integral (keys hold ids and page numbers); \<open>VNaN\<close> is the
  one number that is not equal to itself.
\<close>

datatype jsval =
    VUndefined
  | VNull
  | VBool bool
  | VNum int
  | VNaN
  | VStr string
  | VObj nat "(string \<times> jsval) list"

text \<open>\<^verbatim>\<open>a === b\<close>\<close>

fun strict_eq :: "jsval \<Rightarrow> jsval \<Rightarrow> bool" where
  "strict_eq VUndefined VUndefined = True"
| "strict_eq VNull VNull = True"
| "strict_eq (VBool a) (VBool b) = (a = b)"
| "strict_eq (VNum a) (VNum b) = (a = b)"
| "strict_eq (VStr a) (VStr b) = (a = b)"
| "strict_eq (VObj r _) (VObj r' _) = (r = r')"
| "strict_eq _ _ = False"

text \<open>The condition of \<^verbatim>\<open>x ? a : b\<close> and of \<^verbatim>\<open>if (x)\<close>.\<close>

fun truthy :: "jsval \<Rightarrow> bool" where
  "truthy VUndefined = False"
| "truthy VNull = False"
| "truthy (VBool b) = b"
| "truthy (VNum n) = (n \<noteq> 0)"
| "truthy VNaN = False"
| "truthy (VStr s) = (s \<noteq> [])"
| "truthy (VObj _ _) = True"

section \<open>Query key factory\<close>

type_synonym query_key = "jsval list"

text \<open>
  \<^verbatim>\<open>createQueryKeyFactory(resource)\<close> returns an object of six key builders. The
  builders without parameters are the keys they return; an omitted \<^verbatim>\<open>filters\<close> is
  \<open>VUndefined\<close>; \<^verbatim>\<open>...args\<close> is the list of the remaining arguments.
\<close>

record query_key_factory =
  all :: query_key
  lists :: query_key
  list :: "jsval \<Rightarrow> query_key"
  details :: query_key
  detail :: "jsval \<Rightarrow> query_key"
  custom :: "jsval list \<Rightarrow> query_key"

definition createQueryKeyFactory :: "string \<Rightarrow> query_key_factory" where
  "createQueryKeyFactory resource =
     \<lparr> all = [VStr resource],
       lists = [VStr resource, VStr ''list''],
       list = (\<lambda>filters.
                 if truthy filters then [VStr resource, VStr ''list'', filters]
                 else [VStr resource, VStr ''list'']),
       details = [VStr resource, VStr ''detail''],
       detail = (\<lambda>id. [VStr resource, VStr ''detail'', id]),
       custom = (\<lambda>args. VStr resource # args) \<rparr>"

definition createPaginatedQueryKey :: "string \<Rightarrow> jsval \<Rightarrow> query_key" where
  "createPaginatedQueryKey resource pagination = [VStr resource, VStr ''list'', pagination]"

definition createInfiniteQueryKey :: "string \<Rightarrow> jsval \<Rightarrow> query_key" where
  "createInfiniteQueryKey resource params =
     (if truthy params then [VStr resource, VStr ''infinite'', params]
      else [VStr resource, VStr ''infinite''])"

definition createScopedQueryKey :: "string \<Rightarrow> string \<Rightarrow> jsval list \<Rightarrow> query_key" where
  "createScopedQueryKey scopeId resource args =
     [VStr ''user'', VStr scopeId, VStr resource] @ args"

text \<open>
  \<^verbatim>\<open>pattern.every((value, index) => ...)\<close> visits the pattern's segments with their
  positions; the length test before it keeps every \<^verbatim>\<open>queryKey[index]\<close> in range.
\<close>

definition matchQueryKey :: "query_key \<Rightarrow> query_key \<Rightarrow> bool" where
  "matchQueryKey queryKey pattern =
     (if length pattern > length queryKey then False
      else list_all
             (\<lambda>(v, index). if strict_eq v VUndefined then True
                             else strict_eq (queryKey ! index) v)
             (zip pattern [0..<length pattern]))"

text \<open>
  The specification's reading of a match, for comparison: a concrete pattern segment
  has to be deep-equal to the key's segment, two records being deep-equal when they have
  the same property names and deep-equal values under each name, whatever their
  identities.
\<close>

fun deep_equal :: "jsval \<Rightarrow> jsval \<Rightarrow> bool" where
  "deep_equal (VObj r fs) (VObj r' gs) =
     (set (map fst fs) = set (map fst gs) \<and>
      (\<forall>p \<in> set fs. \<forall>q \<in> set gs. fst p = fst q \<longrightarrow> deep_equal (snd p) (snd q)))"
| "deep_equal a b = strict_eq a b"

definition spec_matches :: "query_key \<Rightarrow> query_key \<Rightarrow> bool" where
  "spec_matches key pattern =
     (length pattern \<le> length key \<and>
      (\<forall>i \<in> set [0..<length pattern].
          pattern ! i = VUndefined \<or> deep_equal (pattern ! i) (key ! i)))"

section \<open>Cache strategies\<close>

text \<open>The time constants of \<^verbatim>\<open>CacheDefaults.ts\<close>, in milliseconds.\<close>

definition TIME_MS_SECOND :: int where "TIME_MS_SECOND = 1000"
definition TIME_MS_MINUTE :: int where "TIME_MS_MINUTE = 60 * 1000"
definition TIME_MS_HOUR :: int where "TIME_MS_HOUR = 60 * 60 * 1000"
definition TIME_MS_DAY :: int where "TIME_MS_DAY = 24 * 60 * 60 * 1000"
definition TIME_MS_WEEK :: int where "TIME_MS_WEEK = 7 * 24 * 60 * 60 * 1000"

definition DEFAULT_STALE_TIME_REALTIME :: int where "DEFAULT_STALE_TIME_REALTIME = 0"
definition DEFAULT_STALE_TIME_VERY_SHORT :: int where "DEFAULT_STALE_TIME_VERY_SHORT = TIME_MS_MINUTE"
definition DEFAULT_STALE_TIME_SHORT :: int where "DEFAULT_STALE_TIME_SHORT = 5 * TIME_MS_MINUTE"
definition DEFAULT_STALE_TIME_MEDIUM :: int where "DEFAULT_STALE_TIME_MEDIUM = 30 * TIME_MS_MINUTE"
definition DEFAULT_STALE_TIME_LONG :: int where "DEFAULT_STALE_TIME_LONG = 2 * TIME_MS_HOUR"
definition DEFAULT_STALE_TIME_VERY_LONG :: int where "DEFAULT_STALE_TIME_VERY_LONG = TIME_MS_DAY"

definition DEFAULT_GC_TIME_VERY_SHORT :: int where "DEFAULT_GC_TIME_VERY_SHORT = 5 * TIME_MS_MINUTE"
definition DEFAULT_GC_TIME_SHORT :: int where "DEFAULT_GC_TIME_SHORT = 30 * TIME_MS_MINUTE"
definition DEFAULT_GC_TIME_MEDIUM :: int where "DEFAULT_GC_TIME_MEDIUM = 2 * TIME_MS_HOUR"
definition DEFAULT_GC_TIME_LONG :: int where "DEFAULT_GC_TIME_LONG = TIME_MS_DAY"
definition DEFAULT_GC_TIME_VERY_LONG :: int where "DEFAULT_GC_TIME_VERY_LONG = 7 * TIME_MS_DAY"

text \<open>\<^verbatim>\<open>boolean | 'always'\<close>, \<^verbatim>\<open>boolean | number\<close> and \<^verbatim>\<open>number | false\<close>.\<close>

datatype refetch_flag = Flag bool | Always
datatype retry_setting = RetryFlag bool | RetryCount int
datatype interval_setting = Every int | Off

definition DEFAULT_RETRY_NONE :: retry_setting where "DEFAULT_RETRY_NONE = RetryFlag False"
definition DEFAULT_RETRY_MINIMAL :: retry_setting where "DEFAULT_RETRY_MINIMAL = RetryCount 1"
definition DEFAULT_RETRY_STANDARD :: retry_setting where "DEFAULT_RETRY_STANDARD = RetryCount 3"
definition DEFAULT_RETRY_AGGRESSIVE :: retry_setting where "DEFAULT_RETRY_AGGRESSIVE = RetryCount 5"

text \<open>The interface \<^verbatim>\<open>CacheConfig\<close>; an optional field that is left out is \<open>None\<close>.\<close>

record CacheConfig =
  staleTime :: int
  gcTime :: int
  refetchOnMount :: "refetch_flag option"
  refetchOnWindowFocus :: "refetch_flag option"
  refetchOnReconnect :: "refetch_flag option"
  retry :: "retry_setting option"
  refetchInterval :: "interval_setting option"

text \<open>The object literal \<^verbatim>\<open>CacheStrategies\<close>: its own properties, in the order written.\<close>

definition CacheStrategies :: "(string \<times> CacheConfig) list" where
  "CacheStrategies =
     [(''REALTIME'',
         \<lparr> staleTime = DEFAULT_STALE_TIME_REALTIME, gcTime = DEFAULT_GC_TIME_VERY_SHORT,
           refetchOnMount = Some Always, refetchOnWindowFocus = Some (Flag True),
           refetchOnReconnect = Some (Flag True), retry = Some DEFAULT_RETRY_MINIMAL,
           refetchInterval = None \<rparr>),
      (''USER_DATA'',
         \<lparr> staleTime = DEFAULT_STALE_TIME_MEDIUM, gcTime = DEFAULT_GC_TIME_LONG,
           refetchOnMount = Some (Flag False), refetchOnWindowFocus = Some (Flag False),
           refetchOnReconnect = Some (Flag True), retry = Some DEFAULT_RETRY_STANDARD,
           refetchInterval = None \<rparr>),
      (''MASTER_DATA'',
         \<lparr> staleTime = DEFAULT_STALE_TIME_VERY_LONG, gcTime = DEFAULT_GC_TIME_VERY_LONG,
           refetchOnMount = Some (Flag False), refetchOnWindowFocus = Some (Flag False),
           refetchOnReconnect = Some (Flag False), retry = Some DEFAULT_RETRY_STANDARD,
           refetchInterval = None \<rparr>),
      (''PUBLIC_DATA'',
         \<lparr> staleTime = DEFAULT_STALE_TIME_MEDIUM, gcTime = DEFAULT_GC_TIME_LONG,
           refetchOnMount = Some (Flag False), refetchOnWindowFocus = Some (Flag False),
           refetchOnReconnect = Some (Flag True), retry = Some DEFAULT_RETRY_STANDARD,
           refetchInterval = None \<rparr>),
      (''CUSTOM'',
         \<lparr> staleTime = DEFAULT_STALE_TIME_SHORT, gcTime = DEFAULT_GC_TIME_MEDIUM,
           refetchOnMount = Some (Flag False), refetchOnWindowFocus = Some (Flag False),
           refetchOnReconnect = Some (Flag True), retry = Some DEFAULT_RETRY_STANDARD,
           refetchInterval = None \<rparr>)]"

text \<open>
  \<^verbatim>\<open>CacheStrategies[strategy]\<close> is a property read on an object literal: it yields
  the own property of that name, else the member the literal inherits from the object
  prototype under that name, else \<^verbatim>\<open>undefined\<close>. It does not throw. The declared
  parameter type is the enumeration \<^verbatim>\<open>CacheStrategyType\<close>, whose values are the five
  strings registered above; at run time the argument is whatever string the caller hands in.
\<close>

datatype 'a property = Own 'a | Inherited string | Undefined

definition object_prototype_names :: "string list" where
  "object_prototype_names =
     [''constructor'', ''hasOwnProperty'', ''isPrototypeOf'', ''propertyIsEnumerable'',
      ''toLocaleString'', ''toString'', ''valueOf'', ''__proto__'',
      ''__defineGetter__'', ''__defineSetter__'', ''__lookupGetter__'', ''__lookupSetter__'']"

definition read_property :: "(string \<times> 'a) list \<Rightarrow> string \<Rightarrow> 'a property" where
  "read_property obj name =
     (case map_of obj name of
        Some v \<Rightarrow> Own v
      | None \<Rightarrow> if name \<in> set object_prototype_names then Inherited name else Undefined)"

definition getCacheStrategy :: "string \<Rightarrow> CacheConfig property" where
  "getCacheStrategy strategy = read_property CacheStrategies strategy"

section \<open>Persister\<close>

text \<open>
  What \<^verbatim>\<open>JSON.parse\<close> returns and \<^verbatim>\<open>JSON.stringify\<close> accepts. A number of the language
  is a double: \<open>JNum\<close> holds the numbers with an integral value, \<open>JFloat\<close> the others,
  a finite one as a decimal fraction \<open>m / 10 ^ k\<close>, which every finite double is.
\<close>

datatype float = Fraction int nat | Infinity | MinusInfinity

datatype json =
    JNull
  | JBool bool
  | JNum int
  | JFloat float
  | JStr string
  | JArr "json list"
  | JObj "(string \<times> json) list"

text \<open>
  The result of a numeric conversion: the conversion of an object can throw a TypeError,
  and the number it yields otherwise can be NaN.
\<close>

datatype number = NaN | Integer int | Inexact float

datatype conversion = Throws | Converts number

text \<open>
  The built-ins and globals of the language that the persister uses are parameters of the
  model. \<open>JSON_parse\<close> is \<open>None\<close> where \<^verbatim>\<open>JSON.parse\<close> throws a SyntaxError.
  \<open>ToNumber\<close> is the numeric conversion of a string, an array or an object.
  \<open>ToString_throws\<close> tells whether the string conversion of an array or an object, as a
  template literal performs it, throws a TypeError. \<open>float_exceeds now x maxAge\<close> is the
  outcome of \<^verbatim>\<open>now - x > maxAge\<close> in double arithmetic for a finite \<open>x\<close> that is
  not integral. \<open>DEV\<close> is the global \<^verbatim>\<open>__DEV__\<close>.
\<close>

record js_runtime =
  JSON_parse :: "string \<Rightarrow> json option"
  JSON_stringify :: "json \<Rightarrow> string"
  ToNumber :: "json \<Rightarrow> conversion"
  ToString_throws :: "json \<Rightarrow> bool"
  float_exceeds :: "int \<Rightarrow> int \<times> nat \<Rightarrow> int \<Rightarrow> bool"
  DEV :: bool

text \<open>
  \<^verbatim>\<open>parsed.name\<close> on a parsed value other than \<^verbatim>\<open>null\<close>: the property of an object
  (the last member of that name in the text wins), \<^verbatim>\<open>undefined\<close>, here \<open>None\<close>, on
  anything else.
\<close>

fun get_prop :: "json \<Rightarrow> string \<Rightarrow> json option" where
  "get_prop (JObj fs) name = map_of (rev fs) name"
| "get_prop _ name = None"

text \<open>
  The operand conversion of \<^verbatim>\<open>Date.now() - parsed.timestamp\<close>: \<^verbatim>\<open>undefined\<close> is NaN,
  \<^verbatim>\<open>null\<close> is 0, a boolean is 0 or 1, a number is itself, and the rest is the
  runtime's.
\<close>

fun to_number :: "js_runtime \<Rightarrow> json option \<Rightarrow> conversion" where
  "to_number rt None = Converts NaN"
| "to_number rt (Some JNull) = Converts (Integer 0)"
| "to_number rt (Some (JBool b)) = Converts (Integer (if b then 1 else 0))"
| "to_number rt (Some (JNum n)) = Converts (Integer n)"
| "to_number rt (Some (JFloat x)) = Converts (Inexact x)"
| "to_number rt (Some v) = ToNumber rt v"

text \<open>
  \<^verbatim>\<open>now - timestamp > maxAge\<close> for the converted timestamp. The clock and the maximal
  age are integers of the range in which doubles are exact; there the double subtraction
  and comparison decide as the integers do for every integral timestamp. A comparison
  with NaN is false, and so is one with minus infinity on the left.
\<close>

fun exceeds :: "js_runtime \<Rightarrow> int \<Rightarrow> number \<Rightarrow> int \<Rightarrow> bool" where
  "exceeds rt now NaN maxAge = False"
| "exceeds rt now (Integer timestamp) maxAge = (now - timestamp > maxAge)"
| "exceeds rt now (Inexact (Fraction m k)) maxAge = float_exceeds rt now (m, k) maxAge"
| "exceeds rt now (Inexact Infinity) maxAge = False"
| "exceeds rt now (Inexact MinusInfinity) maxAge = True"

text \<open>
  The template literal of the version message converts \<^verbatim>\<open>parsed.version\<close> to a string;
  only the conversion of an array or an object can throw.
\<close>

fun template_throws :: "js_runtime \<Rightarrow> json option \<Rightarrow> bool" where
  "template_throws rt (Some (JArr xs)) = ToString_throws rt (JArr xs)"
| "template_throws rt (Some (JObj fs)) = ToString_throws rt (JObj fs)"
| "template_throws rt _ = False"

text \<open>The object \<^verbatim>\<open>persistData\<close> and the function \<^verbatim>\<open>serialize\<close>; \<open>now\<close> is \<^verbatim>\<open>Date.now()\<close>.\<close>

definition persistData :: "string \<Rightarrow> int \<Rightarrow> json \<Rightarrow> json" where
  "persistData busterVersion now data =
     JObj [(''version'', JStr busterVersion), (''timestamp'', JNum now), (''data'', data)]"

definition serialize :: "js_runtime \<Rightarrow> string \<Rightarrow> int \<Rightarrow> json \<Rightarrow> string" where
  "serialize rt busterVersion now data = JSON_stringify rt (persistData busterVersion now data)"

text \<open>
  \<^verbatim>\<open>deserialize\<close> leaves through one of four \<^verbatim>\<open>return\<close> statements. The first three
  return \<^verbatim>\<open>undefined\<close> and differ in the message they print to the console in a
  development build; the last returns \<^verbatim>\<open>parsed.data\<close>, which is \<^verbatim>\<open>undefined\<close> when the
  snapshot has no such member. The \<^verbatim>\<open>catch\<close> clause, the exit \<open>DecodeFailed\<close>, takes
  every error thrown in the \<^verbatim>\<open>try\<close> block: the SyntaxError of \<^verbatim>\<open>JSON.parse\<close>, the
  TypeError of reading \<^verbatim>\<open>version\<close> from \<^verbatim>\<open>null\<close>, the TypeError of the version
  message, which only a development build composes, and the TypeError of the numeric
  conversion of the timestamp.
\<close>

datatype exit_path = DecodeFailed | VersionMismatch | Expired | Restored "json option"

definition deserialize_path :: "js_runtime \<Rightarrow> string \<Rightarrow> int \<Rightarrow> int \<Rightarrow> string \<Rightarrow> exit_path" where
  "deserialize_path rt busterVersion maxAge now cachedString =
     (case JSON_parse rt cachedString of
        None \<Rightarrow> DecodeFailed
      | Some JNull \<Rightarrow> DecodeFailed
      | Some parsed \<Rightarrow>
          if get_prop parsed ''version'' \<noteq> Some (JStr busterVersion) then
            (if DEV rt \<and> template_throws rt (get_prop parsed ''version'') then DecodeFailed
             else VersionMismatch)
          else
            (case to_number rt (get_prop parsed ''timestamp'') of
               Throws \<Rightarrow> DecodeFailed
             | Converts timestamp \<Rightarrow>
                 if exceeds rt now timestamp maxAge then Expired
                 else Restored (get_prop parsed ''data'')))"

fun returned :: "exit_path \<Rightarrow> json option" where
  "returned DecodeFailed = None"
| "returned VersionMismatch = None"
| "returned Expired = None"
| "returned (Restored data) = data"

definition deserialize :: "js_runtime \<Rightarrow> string \<Rightarrow> int \<Rightarrow> int \<Rightarrow> string \<Rightarrow> json option" where
  "deserialize rt busterVersion maxAge now cachedString =
     returned (deserialize_path rt busterVersion maxAge now cachedString)"

text \<open>
  \<^verbatim>\<open>createPersister\<close>: the options with their defaults, and the configuration handed to
  the storage persister. The clock is the first argument of the two callbacks.
\<close>

record PersisterFactoryOptions =
  keyPrefix :: "string option"
  maxAge :: "int option"
  busterVersion :: "string option"
  throttleTime :: "int option"

record persister =
  storage_key :: string
  throttle :: int
  serialize_fn :: "int \<Rightarrow> json \<Rightarrow> string"
  deserialize_fn :: "int \<Rightarrow> string \<Rightarrow> json option"

definition or_default :: "'a option \<Rightarrow> 'a \<Rightarrow> 'a" where
  "or_default x d = (case x of None \<Rightarrow> d | Some v \<Rightarrow> v)"

definition createPersister :: "js_runtime \<Rightarrow> PersisterFactoryOptions \<Rightarrow> persister" where
  "createPersister rt options =
     \<lparr> storage_key = or_default (keyPrefix options) ''tanstack-query'' @ ''-cache'',
       throttle = or_default (throttleTime options) 1000,
       serialize_fn = serialize rt (or_default (busterVersion options) ''1''),
       deserialize_fn =
         deserialize rt (or_default (busterVersion options) ''1'')
           (or_default (maxAge options) DEFAULT_GC_TIME_LONG) \<rparr>"

subsection \<open>A sample runtime\<close>

text \<open>
  An instance of the runtime, to run the persister on concrete strings. Its printer and
  parser cover the JSON texts over the values above, with the string escapes of the
  double quote and of the backslash only; a numeral is read exactly, without the rounding
  to the nearest double. Its conversions of an array or an object throw exactly
  when an object that has a member named \<^verbatim>\<open>toString\<close> has to be converted, since a
  member read from a JSON text is never callable; its numeric conversion of a string
  reads a JSON numeral between white space and the empty string, and is NaN on any other
  string. Its comparison of fractions is the exact one. It is a development build. The
  parser's recursion is bounded by the length of the text.
\<close>

definition digit_char :: "nat \<Rightarrow> char" where
  "digit_char d = ''0123456789'' ! d"

text \<open>The digits of a number that is not negative.\<close>

function show_digits :: "int \<Rightarrow> string" where
  "show_digits n =
     (if n < 10 then [digit_char (nat n)]
      else show_digits (n div 10) @ [digit_char (nat (n mod 10))])"
  by pat_completeness auto
termination
  by (relation "measure nat") auto

definition show_int :: "int \<Rightarrow> string" where
  "show_int i = (if i < 0 then CHR ''-'' # show_digits (- i) else show_digits i)"

text \<open>The \<open>k\<close> decimal places of a fraction, with their leading zeros.\<close>

fun show_places :: "nat \<Rightarrow> int \<Rightarrow> string" where
  "show_places 0 n = []"
| "show_places (Suc k) n = show_places k (n div 10) @ [digit_char (nat (n mod 10))]"

definition show_fraction :: "int \<Rightarrow> nat \<Rightarrow> string" where
  "show_fraction m k =
     (if m < 0 then ''-'' else []) @
       show_digits (\<bar>m\<bar> div 10 ^ k) @ CHR ''.'' # show_places k (\<bar>m\<bar> mod 10 ^ k)"

fun escape :: "string \<Rightarrow> string" where
  "escape [] = []"
| "escape (c # cs) =
     (if c = CHR 0x22 \<or> c = CHR 0x5C then CHR 0x5C # c # escape cs else c # escape cs)"

definition quote :: "string \<Rightarrow> string" where
  "quote s = CHR 0x22 # escape s @ [CHR 0x22]"

fun join_commas :: "string list \<Rightarrow> string" where
  "join_commas [] = []"
| "join_commas [s] = s"
| "join_commas (s # t # ss) = s @ CHR '','' # join_commas (t # ss)"

fun json_stringify :: "json \<Rightarrow> string" where
  "json_stringify JNull = ''null''"
| "json_stringify (JBool b) = (if b then ''true'' else ''false'')"
| "json_stringify (JNum n) = show_int n"
| "json_stringify (JFloat (Fraction m k)) = show_fraction m k"
| "json_stringify (JFloat Infinity) = ''null''"
| "json_stringify (JFloat MinusInfinity) = ''null''"
| "json_stringify (JStr s) = quote s"
| "json_stringify (JArr xs) = CHR ''['' # join_commas (map json_stringify xs) @ '']''"
| "json_stringify (JObj fs) =
     CHR ''{'' #
       join_commas (map (\<lambda>p. quote (fst p) @ CHR '':'' # json_stringify (snd p)) fs) @ ''}''"

fun skip_ws :: "string \<Rightarrow> string" where
  "skip_ws [] = []"
| "skip_ws (c # cs) =
     (if c = CHR '' '' \<or> c = CHR 0x0A \<or> c = CHR 0x0D \<or> c = CHR 0x09 then skip_ws cs
      else c # cs)"

fun parse_chars :: "string \<Rightarrow> (string \<times> string) option" where
  "parse_chars [] = None"
| "parse_chars (c # cs) =
     (if c = CHR 0x22 then Some ([], cs)
      else if c = CHR 0x5C then
        (case cs of
           [] \<Rightarrow> None
         | e # cs' \<Rightarrow>
             if e = CHR 0x22 \<or> e = CHR 0x5C then
               (case parse_chars cs' of None \<Rightarrow> None | Some (s, r) \<Rightarrow> Some (e # s, r))
             else None)
      else (case parse_chars cs of None \<Rightarrow> None | Some (s, r) \<Rightarrow> Some (c # s, r)))"

definition digit_value :: "char \<Rightarrow> int option" where
  "digit_value c =
     map_of [(CHR ''0'', 0), (CHR ''1'', 1), (CHR ''2'', 2), (CHR ''3'', 3), (CHR ''4'', 4),
             (CHR ''5'', 5), (CHR ''6'', 6), (CHR ''7'', 7), (CHR ''8'', 8), (CHR ''9'', 9)] c"

text \<open>
  A run of digits, read onto the digits \<open>acc\<close> read before it: the number read, the
  count of the digits of the run, and the rest of the text.
\<close>

fun parse_digits :: "int \<Rightarrow> nat \<Rightarrow> string \<Rightarrow> int \<times> nat \<times> string" where
  "parse_digits acc count [] = (acc, count, [])"
| "parse_digits acc count (c # cs) =
     (case digit_value c of
        None \<Rightarrow> (acc, count, c # cs)
      | Some d \<Rightarrow> parse_digits (10 * acc + d) (Suc count) cs)"

text \<open>The integer part of a numeral: a single zero, or digits that start with another one.\<close>

definition parse_nat :: "string \<Rightarrow> (int \<times> string) option" where
  "parse_nat s =
     (case s of
        [] \<Rightarrow> None
      | c # cs \<Rightarrow>
          (case digit_value c of
             None \<Rightarrow> None
           | Some d \<Rightarrow>
               if d = 0 then Some (0, cs)
               else (case parse_digits d 0 cs of (n, count, r) \<Rightarrow> Some (n, r))))"

text \<open>The optional fraction: the digits read so far with the places appended.\<close>

definition parse_places :: "int \<Rightarrow> string \<Rightarrow> (int \<times> nat \<times> string) option" where
  "parse_places n s =
     (case s of
        [] \<Rightarrow> Some (n, 0, s)
      | c # cs \<Rightarrow>
          if c = CHR ''.'' then
            (case parse_digits n 0 cs of
               (m, count, r) \<Rightarrow> if count = 0 then None else Some (m, count, r))
          else Some (n, 0, s))"

text \<open>The optional exponent: its value, 0 when there is none.\<close>

definition parse_exponent :: "string \<Rightarrow> (int \<times> string) option" where
  "parse_exponent s =
     (case s of
        [] \<Rightarrow> Some (0, s)
      | c # cs \<Rightarrow>
          if c = CHR ''e'' \<or> c = CHR ''E'' then
            (case cs of
               [] \<Rightarrow> None
             | d # ds \<Rightarrow>
                 if d = CHR ''-'' then
                   (case parse_digits 0 0 ds of
                      (x, count, r) \<Rightarrow> if count = 0 then None else Some (- x, r))
                 else if d = CHR ''+'' then
                   (case parse_digits 0 0 ds of
                      (x, count, r) \<Rightarrow> if count = 0 then None else Some (x, r))
                 else
                   (case parse_digits 0 0 cs of
                      (x, count, r) \<Rightarrow> if count = 0 then None else Some (x, r)))
          else Some (0, s))"

text \<open>The number \<open>m / 10 ^ k\<close> as a value: integral when the places are all zero.\<close>

fun decimal :: "int \<Rightarrow> nat \<Rightarrow> json" where
  "decimal m 0 = JNum m"
| "decimal m (Suc k) = (if m mod 10 = 0 then decimal (m div 10) k else JFloat (Fraction m (Suc k)))"

definition scaled :: "int \<Rightarrow> nat \<Rightarrow> int \<Rightarrow> json" where
  "scaled m k x =
     (if int k \<le> x then JNum (m * 10 ^ nat (x - int k)) else decimal m (nat (int k - x)))"

definition parse_unsigned :: "string \<Rightarrow> (int \<times> nat \<times> int \<times> string) option" where
  "parse_unsigned s =
     (case parse_nat s of
        None \<Rightarrow> None
      | Some (n, r) \<Rightarrow>
          (case parse_places n r of
             None \<Rightarrow> None
           | Some (m, k, r') \<Rightarrow>
               (case parse_exponent r' of
                  None \<Rightarrow> None
                | Some (x, r'') \<Rightarrow> Some (m, k, x, r''))))"

definition parse_number :: "string \<Rightarrow> (json \<times> string) option" where
  "parse_number s =
     (case s of
        [] \<Rightarrow> None
      | c # cs \<Rightarrow>
          if c = CHR ''-'' then
            (case parse_unsigned cs of
               None \<Rightarrow> None
             | Some (m, k, x, r) \<Rightarrow> Some (scaled (- m) k x, r))
          else
            (case parse_unsigned s of
               None \<Rightarrow> None
             | Some (m, k, x, r) \<Rightarrow> Some (scaled m k x, r)))"

definition expect :: "string \<Rightarrow> string \<Rightarrow> string option" where
  "expect w s = (if take (length w) s = w then Some (drop (length w) s) else None)"

fun parse_value :: "nat \<Rightarrow> string \<Rightarrow> (json \<times> string) option"
  and parse_elements :: "nat \<Rightarrow> string \<Rightarrow> (json list \<times> string) option"
  and parse_members :: "nat \<Rightarrow> string \<Rightarrow> ((string \<times> json) list \<times> string) option"
where
  "parse_value 0 s = None"
| "parse_value (Suc fuel) s =
     (case skip_ws s of
        [] \<Rightarrow> None
      | c # cs \<Rightarrow>
          if c = CHR ''n'' then map_option (Pair JNull) (expect ''ull'' cs)
          else if c = CHR ''t'' then map_option (Pair (JBool True)) (expect ''rue'' cs)
          else if c = CHR ''f'' then map_option (Pair (JBool False)) (expect ''alse'' cs)
          else if c = CHR 0x22 then
            (case parse_chars cs of None \<Rightarrow> None | Some (str, r) \<Rightarrow> Some (JStr str, r))
          else if c = CHR ''['' then
            (case skip_ws cs of
               [] \<Rightarrow> None
             | d # ds \<Rightarrow>
                 if d = CHR '']'' then Some (JArr [], ds)
                 else (case parse_elements fuel cs of
                         None \<Rightarrow> None
                       | Some (vs, r) \<Rightarrow> Some (JArr vs, r)))
          else if c = CHR ''{'' then
            (case skip_ws cs of
               [] \<Rightarrow> None
             | d # ds \<Rightarrow>
                 if d = CHR ''}'' then Some (JObj [], ds)
                 else (case parse_members fuel cs of
                         None \<Rightarrow> None
                       | Some (fs, r) \<Rightarrow> Some (JObj fs, r)))
          else parse_number (c # cs))"
| "parse_elements 0 s = None"
| "parse_elements (Suc fuel) s =
     (case parse_value fuel s of
        None \<Rightarrow> None
      | Some (v, r) \<Rightarrow>
          (case skip_ws r of
             [] \<Rightarrow> None
           | d # ds \<Rightarrow>
               if d = CHR '']'' then Some ([v], ds)
               else if d = CHR '','' then
                 (case parse_elements fuel ds of
                    None \<Rightarrow> None
                  | Some (vs, r') \<Rightarrow> Some (v # vs, r'))
               else None))"
| "parse_members 0 s = None"
| "parse_members (Suc fuel) s =
     (case skip_ws s of
        [] \<Rightarrow> None
      | q # qs \<Rightarrow>
          if q \<noteq> CHR 0x22 then None
          else
            (case parse_chars qs of
               None \<Rightarrow> None
             | Some (k, r) \<Rightarrow>
                 (case skip_ws r of
                    [] \<Rightarrow> None
                  | e # es \<Rightarrow>
                      if e \<noteq> CHR '':'' then None
                      else
                        (case parse_value fuel es of
                           None \<Rightarrow> None
                         | Some (v, r') \<Rightarrow>
                             (case skip_ws r' of
                                [] \<Rightarrow> None
                              | d # ds \<Rightarrow>
                                  if d = CHR ''}'' then Some ([(k, v)], ds)
                                  else if d = CHR '','' then
                                    (case parse_members fuel ds of
                                       None \<Rightarrow> None
                                     | Some (fs, r'') \<Rightarrow> Some ((k, v) # fs, r''))
                                  else None)))))"

definition json_parse :: "string \<Rightarrow> json option" where
  "json_parse s =
     (case parse_value (Suc (length s)) s of
        None \<Rightarrow> None
      | Some (v, r) \<Rightarrow> if skip_ws r = [] then Some v else None)"

text \<open>The conversions of the sample.\<close>

fun unconvertible :: "json \<Rightarrow> bool" where
  "unconvertible (JObj fs) = (''toString'' \<in> set (map fst fs))"
| "unconvertible (JArr xs) = (\<exists>x \<in> set xs. unconvertible x)"
| "unconvertible _ = False"

definition numeral_number :: "json \<Rightarrow> number" where
  "numeral_number v =
     (case v of JNum n \<Rightarrow> Integer n | JFloat x \<Rightarrow> Inexact x | _ \<Rightarrow> NaN)"

definition string_number :: "string \<Rightarrow> number" where
  "string_number s =
     (if skip_ws s = [] then Integer 0
      else case parse_number (skip_ws s) of
             None \<Rightarrow> NaN
           | Some (v, r) \<Rightarrow> if skip_ws r = [] then numeral_number v else NaN)"

text \<open>
  An array converts through the text that joins its elements with commas, in which
  \<^verbatim>\<open>null\<close> is empty; a text with a comma is no numeral.
\<close>

fun element_number :: "json \<Rightarrow> number" where
  "element_number JNull = Integer 0"
| "element_number (JBool b) = NaN"
| "element_number (JNum n) = Integer n"
| "element_number (JFloat x) = Inexact x"
| "element_number (JStr s) = string_number s"
| "element_number (JArr []) = Integer 0"
| "element_number (JArr [x]) = element_number x"
| "element_number (JArr (x # y # xs)) = NaN"
| "element_number (JObj fs) = NaN"

definition sample_to_number :: "json \<Rightarrow> conversion" where
  "sample_to_number v =
     (if unconvertible v then Throws
      else case v of
             JStr s \<Rightarrow> Converts (string_number s)
           | JArr [] \<Rightarrow> Converts (Integer 0)
           | JArr [x] \<Rightarrow> Converts (element_number x)
           | _ \<Rightarrow> Converts NaN)"

definition exact_exceeds :: "int \<Rightarrow> int \<times> nat \<Rightarrow> int \<Rightarrow> bool" where
  "exact_exceeds now x limit = (now * 10 ^ snd x - fst x > limit * 10 ^ snd x)"

definition sample_runtime :: js_runtime where
  "sample_runtime =
     \<lparr> JSON_parse = json_parse, JSON_stringify = json_stringify,
       ToNumber = sample_to_number, ToString_throws = unconvertible,
       float_exceeds = exact_exceeds, DEV = True \<rparr>"

section \<open>Optimistic update\<close>

text \<open>
  The query client is the engine's side of the hook. The model keeps its cache, a partial
  map from query keys to data in which a key without data reads as \<^verbatim>\<open>undefined\<close>, and
  a log of what each of its capabilities did, oldest first: the keys cancelled by
  \<^verbatim>\<open>cancelQueries\<close>, the writes made by \<^verbatim>\<open>setQueryData\<close> and the keys invalidated by
  \<^verbatim>\<open>invalidateQueries\<close>. The engine compares keys through their hash, so \<open>'k\<close> is a
  type of keys up to that identity. Data are values other than functions, and
  \<^verbatim>\<open>undefined\<close>, here \<open>None\<close>, is no data: the engine's \<^verbatim>\<open>setQueryData\<close> returns
  without a write when it is handed \<^verbatim>\<open>undefined\<close>.
\<close>

record ('k, 'v) query_client =
  cache :: "'k \<rightharpoonup> 'v"
  cancelled :: "'k list"
  writes :: "('k \<times> 'v) list"
  invalidated :: "'k list"

definition cancelQueries :: "'k \<Rightarrow> ('k, 'v) query_client \<Rightarrow> ('k, 'v) query_client" where
  "cancelQueries k c = c\<lparr>cancelled := cancelled c @ [k]\<rparr>"

definition getQueryData :: "'k \<Rightarrow> ('k, 'v) query_client \<Rightarrow> 'v option" where
  "getQueryData k c = cache c k"

definition setQueryData ::
  "'k \<Rightarrow> 'v option \<Rightarrow> ('k, 'v) query_client \<Rightarrow> ('k, 'v) query_client" where
  "setQueryData k data c =
     (case data of
        None \<Rightarrow> c
      | Some v \<Rightarrow> c\<lparr>cache := (cache c)(k \<mapsto> v), writes := writes c @ [(k, v)]\<rparr>)"

definition invalidateQueries :: "'k \<Rightarrow> ('k, 'v) query_client \<Rightarrow> ('k, 'v) query_client" where
  "invalidateQueries k c = c\<lparr>invalidated := invalidated c @ [k]\<rparr>"

text \<open>The context that \<^verbatim>\<open>onMutate\<close> returns.\<close>

record 'v mutation_context =
  previousData :: "'v option"

text \<open>
  The configuration of the hook. The updater may return \<^verbatim>\<open>undefined\<close>. The caller's
  own \<^verbatim>\<open>onError\<close> and \<^verbatim>\<open>onSettled\<close> are optional callbacks that may act on the query
  client; \<^verbatim>\<open>invalidateOnSuccess\<close> left out is \<^verbatim>\<open>true\<close>. An error is whatever value the
  mutation was rejected with, and the error of a mutation that succeeded is \<^verbatim>\<open>null\<close>.
\<close>

record ('k, 'v, 'a) optimistic_config =
  queryKey :: 'k
  updater :: "'v \<Rightarrow> 'a \<Rightarrow> 'v option"
  invalidateOnSuccess :: "bool option"
  user_onError ::
    "(jsval \<Rightarrow> 'a \<Rightarrow> 'v mutation_context option \<Rightarrow>
        ('k, 'v) query_client \<Rightarrow> ('k, 'v) query_client) option"
  user_onSettled ::
    "('v option \<Rightarrow> jsval \<Rightarrow> 'a \<Rightarrow> 'v mutation_context option \<Rightarrow>
        ('k, 'v) query_client \<Rightarrow> ('k, 'v) query_client) option"

text \<open>
  \<^verbatim>\<open>onMutate\<close> awaits the cancellation and then, without a further suspension, reads
  the snapshot and writes the optimistic value; the model runs the three steps on the
  client as the cancellation left it.
\<close>

definition onMutate ::
  "('k, 'v, 'a) optimistic_config \<Rightarrow> 'a \<Rightarrow> ('k, 'v) query_client \<Rightarrow>
     'v mutation_context \<times> ('k, 'v) query_client" where
  "onMutate config variables c =
     (let c1 = cancelQueries (queryKey config) c;
          previous = getQueryData (queryKey config) c1
      in case previous of
           Some old \<Rightarrow>
             (\<lparr>previousData = previous\<rparr>,
              setQueryData (queryKey config) (updater config old variables) c1)
         | None \<Rightarrow> (\<lparr>previousData = previous\<rparr>, c1))"

text \<open>The two halves of \<^verbatim>\<open>onError\<close>: the rollback, then the caller's callback.\<close>

definition rollback ::
  "('k, 'v, 'a) optimistic_config \<Rightarrow> 'v mutation_context option \<Rightarrow>
     ('k, 'v) query_client \<Rightarrow> ('k, 'v) query_client" where
  "rollback config context c =
     (case context of
        None \<Rightarrow> c
      | Some ctx \<Rightarrow>
          (case previousData ctx of
             None \<Rightarrow> c
           | Some old \<Rightarrow> setQueryData (queryKey config) (Some old) c))"

definition onError ::
  "('k, 'v, 'a) optimistic_config \<Rightarrow> jsval \<Rightarrow> 'a \<Rightarrow> 'v mutation_context option \<Rightarrow>
     ('k, 'v) query_client \<Rightarrow> ('k, 'v) query_client" where
  "onError config error variables context c =
     (let c1 = rollback config context c
      in case user_onError config of
           None \<Rightarrow> c1
         | Some f \<Rightarrow> f error variables context c1)"

text \<open>
  \<^verbatim>\<open>onSettled\<close>: the invalidation under the test \<^verbatim>\<open>invalidateOnSuccess && !error\<close>, then
  the caller's callback.
\<close>

definition onSettled ::
  "('k, 'v, 'a) optimistic_config \<Rightarrow> 'v option \<Rightarrow> jsval \<Rightarrow> 'a \<Rightarrow>
     'v mutation_context option \<Rightarrow> ('k, 'v) query_client \<Rightarrow> ('k, 'v) query_client" where
  "onSettled config data error variables context c =
     (let c1 = (if or_default (invalidateOnSuccess config) True \<and> \<not> truthy error
                then invalidateQueries (queryKey config) c
                else c)
      in case user_onSettled config of
           None \<Rightarrow> c1
         | Some f \<Rightarrow> f data error variables context c1)"

text \<open>
  How the engine ends a mutation, as far as the callbacks of the hook go: after a write
  that succeeded it calls \<^verbatim>\<open>onSettled\<close> with the data and the error \<^verbatim>\<open>null\<close>; after a
  write that failed it calls \<^verbatim>\<open>onError\<close> and then \<^verbatim>\<open>onSettled\<close>, both with the value the
  write was rejected with.
\<close>

datatype 'v outcome = Succeeded 'v | Failed jsval

definition settle ::
  "('k, 'v, 'a) optimistic_config \<Rightarrow> 'v outcome \<Rightarrow> 'a \<Rightarrow> 'v mutation_context option \<Rightarrow>
     ('k, 'v) query_client \<Rightarrow> ('k, 'v) query_client" where
  "settle config result variables context c =
     (case result of
        Succeeded data \<Rightarrow> onSettled config (Some data) VNull variables context c
      | Failed error \<Rightarrow>
          onSettled config None error variables context
            (onError config error variables context c))"

subsection \<open>A sample mutation\<close>

text \<open>
  A counter of likes under the key \<open>K\<close>, with the updater that adds the mutation's delta,
  no callbacks of the caller and \<^verbatim>\<open>invalidateOnSuccess\<close> left out; the same with an
  updater that returns \<^verbatim>\<open>undefined\<close>; a client whose cache holds 5 likes, and one whose
  cache is empty; an error object.
\<close>

definition likes_config :: "(string, int, int) optimistic_config" where
  "likes_config =
     \<lparr> queryKey = ''K'', updater = (\<lambda>likes delta. Some (likes + delta)),
       invalidateOnSuccess = None, user_onError = None, user_onSettled = None \<rparr>"

definition idle_config :: "(string, int, int) optimistic_config" where
  "idle_config =
     \<lparr> queryKey = ''K'', updater = (\<lambda>likes delta. None),
       invalidateOnSuccess = None, user_onError = None, user_onSettled = None \<rparr>"

definition likes_client :: "(string, int) query_client" where
  "likes_client = \<lparr> cache = [''K'' \<mapsto> 5], cancelled = [], writes = [], invalidated = [] \<rparr>"


definition offline :: jsval where
  "offline = VObj 0 [(''message'', VStr ''offline'')]"

section \<open>Properties of the query keys\<close>

lemma every_indexed:
  "list_all (\<lambda>(v, index). P v index) (zip xs [0..<length xs]) \<longleftrightarrow>
     (\<forall>i<length xs. P (xs ! i) i)"
  by (simp add: list_all_length)

lemma strict_eq_undefined: "strict_eq v VUndefined \<longleftrightarrow> v = VUndefined"
  by (cases v) simp_all

text \<open>
  Claim C2, as amended: the \<^verbatim>\<open>custom\<close> builder of the factory validates nothing. For
  every resource name, the empty one included, and every list of segments it returns the
  key that starts with the resource name and continues with the segments.
\<close>

theorem custom_key_unvalidated:
  "custom (createQueryKeyFactory resource) args = VStr resource # args"
  by (simp add: createQueryKeyFactory_def)

text \<open>
  Claim C2 as stated fails at the empty resource name: the builder returns the key
  \<^verbatim>\<open>['']\<close> where the claim has it fail.
\<close>

theorem custom_key_empty_resource:
  "custom (createQueryKeyFactory []) [] = [VStr []]"
  by (simp add: createQueryKeyFactory_def)

text \<open>
  Claim C3, as amended: a key matches a pattern exactly when the pattern is no longer than
  the key and every pattern segment is either \<^verbatim>\<open>undefined\<close>, the wildcard, or
  identical under \<^verbatim>\<open>===\<close> to the key's segment at its position: primitives by value,
  records by reference.
\<close>

theorem matchQueryKey_strict:
  "matchQueryKey key pattern \<longleftrightarrow>
     length pattern \<le> length key \<and>
     (\<forall>i<length pattern. pattern ! i = VUndefined \<or> strict_eq (key ! i) (pattern ! i))"
  unfolding matchQueryKey_def
  by (auto simp add: every_indexed strict_eq_undefined)

theorem matchQueryKey_strict_witness:
  "length [VStr ''posts'', VUndefined] \<le> length [VStr ''posts'', VStr ''detail'', VNum 123] \<and>
   matchQueryKey [VStr ''posts'', VStr ''detail'', VNum 123] [VStr ''posts'', VUndefined] \<and>
   \<not> matchQueryKey [VStr ''posts'', VStr ''detail'', VNum 123] [VStr ''posts'', VStr ''list'']"
  using matchQueryKey_strict [of "[VStr ''posts'', VStr ''detail'', VNum 123]"
      "[VStr ''posts'', VUndefined]"]
    matchQueryKey_strict [of "[VStr ''posts'', VStr ''detail'', VNum 123]"
      "[VStr ''posts'', VStr ''list'']"]
  by (simp add: nth_Cons' less_Suc_eq)

text \<open>
  Claim C3 as stated fails on a record segment: two filter records with the same
  properties and different identities are deep-equal, so the specification's match holds,
  and \<^verbatim>\<open>matchQueryKey\<close> returns false.
\<close>

theorem matchQueryKey_not_deep:
  "spec_matches
     [VStr ''posts'', VStr ''list'', VObj 1 [(''status'', VStr ''published'')]]
     [VStr ''posts'', VStr ''list'', VObj 2 [(''status'', VStr ''published'')]] \<and>
   \<not> matchQueryKey
     [VStr ''posts'', VStr ''list'', VObj 1 [(''status'', VStr ''published'')]]
     [VStr ''posts'', VStr ''list'', VObj 2 [(''status'', VStr ''published'')]]"
  by (simp add: spec_matches_def matchQueryKey_def upt_rec nth_Cons')

text \<open>
  Claim C5, as amended: for every scope id, resource and list of further segments, the
  scoped key is \<^verbatim>\<open>['user', scopeId, resource, ...args]\<close>; its first segment is the
  literal string \<^verbatim>\<open>user\<close>.
\<close>

theorem createScopedQueryKey_user:
  "createScopedQueryKey scopeId resource args =
     VStr ''user'' # VStr scopeId # VStr resource # args"
  by (simp add: createScopedQueryKey_def)

text \<open>
  Claim C5 as stated fails on the example of the source: the key does not start with the
  segment \<^verbatim>\<open>scope\<close>.
\<close>

theorem createScopedQueryKey_not_scope:
  "createScopedQueryKey ''user123'' ''posts'' [] \<noteq>
     [VStr ''scope'', VStr ''user123'', VStr ''posts'']"
  by (simp add: createScopedQueryKey_def)

section \<open>Properties of the cache strategies\<close>

lemma registered_strategies:
  "map fst CacheStrategies =
     [''REALTIME'', ''USER_DATA'', ''MASTER_DATA'', ''PUBLIC_DATA'', ''CUSTOM'']"
  by (simp add: CacheStrategies_def)

text \<open>
  Claim C4, as amended: \<^verbatim>\<open>getCacheStrategy\<close> has no failure. For a registered
  classification it returns the registered configuration; for any other string it
  returns what the property read yields without raising: \<^verbatim>\<open>undefined\<close>, or the member
  of that name that the table inherits from the object prototype.
\<close>

theorem getCacheStrategy_total:
  "(strategy \<in> set (map fst CacheStrategies) \<longrightarrow>
      (\<exists>config. (strategy, config) \<in> set CacheStrategies \<and>
         getCacheStrategy strategy = Own config)) \<and>
   (strategy \<notin> set (map fst CacheStrategies) \<longrightarrow>
      getCacheStrategy strategy =
        (if strategy \<in> set object_prototype_names then Inherited strategy else Undefined))"
proof (cases "map_of CacheStrategies strategy")
  case None
  then have "strategy \<notin> set (map fst CacheStrategies)"
    by (simp add: map_of_eq_None_iff)
  with None show ?thesis
    by (simp add: getCacheStrategy_def read_property_def)
next
  case (Some config)
  then have "(strategy, config) \<in> set CacheStrategies"
    by (rule map_of_SomeD)
  with Some show ?thesis
    by (force simp add: getCacheStrategy_def read_property_def)
qed

theorem getCacheStrategy_total_witness:
  "''PUBLIC_DATA'' \<in> set (map fst CacheStrategies) \<and>
   (\<exists>config. getCacheStrategy ''PUBLIC_DATA'' = Own config) \<and>
   ''ANALYTICS'' \<notin> set (map fst CacheStrategies) \<and>
   ''ANALYTICS'' \<notin> set object_prototype_names \<and>
   getCacheStrategy ''ANALYTICS'' = Undefined"
proof -
  have registered: "''PUBLIC_DATA'' \<in> set (map fst CacheStrategies)"
    by (simp add: registered_strategies)
  have unregistered: "''ANALYTICS'' \<notin> set (map fst CacheStrategies)"
    by (simp add: registered_strategies)
  have own: "''ANALYTICS'' \<notin> set object_prototype_names"
    by (simp add: object_prototype_names_def)
  from getCacheStrategy_total [of "''PUBLIC_DATA''"] getCacheStrategy_total [of "''ANALYTICS''"]
    registered unregistered own
  show ?thesis by auto
qed

text \<open>
  Claim C4 as stated fails at an unregistered classification: the lookup returns
  \<^verbatim>\<open>undefined\<close>, an absent value, and raises nothing.
\<close>

theorem getCacheStrategy_unregistered:
  "getCacheStrategy ''UNKNOWN'' = Undefined"
  by (simp add: getCacheStrategy_def read_property_def CacheStrategies_def
        object_prototype_names_def)

section \<open>Properties of the persister\<close>

lemma persistData_props:
  "get_prop (persistData ver t0 payload) ''version'' = Some (JStr ver)"
  "get_prop (persistData ver t0 payload) ''timestamp'' = Some (JNum t0)"
  "get_prop (persistData ver t0 payload) ''data'' = Some payload"
  "persistData ver t0 payload \<noteq> JNull"
  by (simp_all add: persistData_def)

lemma deserialize_path_parsed:
  assumes "JSON_parse rt s = Some parsed" and "parsed \<noteq> JNull"
  shows "deserialize_path rt ver lim now s =
           (if get_prop parsed ''version'' \<noteq> Some (JStr ver) then
              (if DEV rt \<and> template_throws rt (get_prop parsed ''version'') then DecodeFailed
               else VersionMismatch)
            else case to_number rt (get_prop parsed ''timestamp'') of
                   Throws \<Rightarrow> DecodeFailed
                 | Converts t \<Rightarrow> if exceeds rt now t lim then Expired
                                 else Restored (get_prop parsed ''data''))"
  using assms unfolding deserialize_path_def
  by (cases parsed) (auto split: conversion.splits)

lemma deserialize_path_undecoded:
  "JSON_parse rt s = None \<or> JSON_parse rt s = Some JNull \<Longrightarrow>
     deserialize_path rt ver lim now s = DecodeFailed"
  unfolding deserialize_path_def by auto

lemma deserialize_path_serialized:
  assumes "JSON_parse rt (JSON_stringify rt (persistData ver t0 payload)) =
             Some (persistData ver t0 payload)"
  shows "deserialize_path rt ver lim now (serialize rt ver t0 payload) =
           (if now - t0 > lim then Expired else Restored (Some payload))"
  using assms
  by (simp add: serialize_def deserialize_path_parsed [OF _ persistData_props(4)]
        persistData_props)

lemma createPersister_callbacks:
  "serialize_fn (createPersister rt options) =
     serialize rt (or_default (busterVersion options) ''1'')"
  "deserialize_fn (createPersister rt options) =
     deserialize rt (or_default (busterVersion options) ''1'')
       (or_default (maxAge options) DEFAULT_GC_TIME_LONG)"
  by (simp_all add: createPersister_def)

lemmas sample_defs =
  sample_runtime_def json_parse_def persistData_def serialize_def quote_def show_int_def
  digit_char_def expect_def parse_number_def parse_unsigned_def parse_nat_def
  parse_places_def parse_exponent_def scaled_def digit_value_def

lemma sample_rejects_text: "JSON_parse sample_runtime ''not json'' = None"
  by (simp add: sample_defs)

lemma sample_reads_back_v2:
  "JSON_parse sample_runtime (serialize sample_runtime ''2'' 4500 (JArr [])) =
     Some (persistData ''2'' 4500 (JArr []))"
  by (simp add: sample_defs)

lemma sample_reads_back_v1:
  "JSON_parse sample_runtime (serialize sample_runtime ''1'' 100 (JArr [])) =
     Some (persistData ''1'' 100 (JArr []))"
  by (simp add: sample_defs)

lemma sample_reads_back_unconvertible:
  "JSON_parse sample_runtime
     (JSON_stringify sample_runtime
        (JObj [(''version'', JStr ''1''), (''timestamp'', JObj [(''toString'', JNum 1)]),
               (''data'', JNum 1)])) =
   Some (JObj [(''version'', JStr ''1''), (''timestamp'', JObj [(''toString'', JNum 1)]),
               (''data'', JNum 1)])"
  by (simp add: sample_defs)

lemma sample_reads_back_unprintable:
  "JSON_parse sample_runtime
     (JSON_stringify sample_runtime
        (JObj [(''version'', JObj [(''toString'', JNum 1)]), (''timestamp'', JNum 4500),
               (''data'', JNum 1)])) =
   Some (JObj [(''version'', JObj [(''toString'', JNum 1)]), (''timestamp'', JNum 4500),
               (''data'', JNum 1)])"
  by (simp add: sample_defs)

lemma sample_conversions:
  "ToNumber sample_runtime (JObj [(''toString'', JNum 1)]) = Throws"
  "ToString_throws sample_runtime (JObj [(''toString'', JNum 1)])"
  "DEV sample_runtime"
  by (simp_all add: sample_runtime_def sample_to_number_def)

text \<open>
  Claim C1, as amended: \<^verbatim>\<open>deserialize\<close> validates in the order decode, version, age,
  and each of the three failing exits returns \<^verbatim>\<open>undefined\<close>, so the returned value does
  not tell the caller which check failed. The decode exit, the \<^verbatim>\<open>catch\<close> clause, is
  taken by a text that \<^verbatim>\<open>JSON.parse\<close> rejects or that parses to \<^verbatim>\<open>null\<close>, and by a
  decoded value on which a conversion throws: in a development build the string
  conversion of a mismatching version for the console message, and the numeric conversion
  of the timestamp of an in-version snapshot. A decoded value whose \<^verbatim>\<open>version\<close> is not
  the expected string leaves through the version exit otherwise, whatever its age. The
  expiry exit is taken exactly by an in-version snapshot whose timestamp converts to a
  number that is older than the maximal age.
\<close>

theorem deserialize_validation_order:
  "(deserialize_path rt ver lim now s = DecodeFailed \<longleftrightarrow>
      JSON_parse rt s = None \<or> JSON_parse rt s = Some JNull \<or>
      (\<exists>parsed. JSON_parse rt s = Some parsed \<and> parsed \<noteq> JNull \<and>
         get_prop parsed ''version'' \<noteq> Some (JStr ver) \<and>
         DEV rt \<and> template_throws rt (get_prop parsed ''version'')) \<or>
      (\<exists>parsed. JSON_parse rt s = Some parsed \<and>
         get_prop parsed ''version'' = Some (JStr ver) \<and>
         to_number rt (get_prop parsed ''timestamp'') = Throws)) \<and>
   (deserialize_path rt ver lim now s = VersionMismatch \<longleftrightarrow>
      (\<exists>parsed. JSON_parse rt s = Some parsed \<and> parsed \<noteq> JNull \<and>
         get_prop parsed ''version'' \<noteq> Some (JStr ver) \<and>
         \<not> (DEV rt \<and> template_throws rt (get_prop parsed ''version'')))) \<and>
   (deserialize_path rt ver lim now s = Expired \<longleftrightarrow>
      (\<exists>parsed t. JSON_parse rt s = Some parsed \<and>
         get_prop parsed ''version'' = Some (JStr ver) \<and>
         to_number rt (get_prop parsed ''timestamp'') = Converts t \<and>
         exceeds rt now t lim)) \<and>
   (deserialize_path rt ver lim now s \<in> {DecodeFailed, VersionMismatch, Expired} \<longrightarrow>
      deserialize rt ver lim now s = None)"
proof (cases "JSON_parse rt s")
  case None
  then show ?thesis
    by (simp add: deserialize_def deserialize_path_undecoded)
next
  case (Some parsed)
  show ?thesis
  proof (cases "parsed = JNull")
    case True
    with Some show ?thesis
      by (simp add: deserialize_def deserialize_path_undecoded)
  next
    case False
    with Some show ?thesis
      by (auto simp add: deserialize_def deserialize_path_parsed
            split: conversion.splits if_splits)
  qed
qed

text \<open>
  The exits on the sample runtime, read under version 1 at time 5000 with a maximal age
  of 1000: a text that is not JSON, a snapshot written under version 2, a snapshot of
  version 1 written at time 100, a snapshot of version 1 whose timestamp is an object
  with a member \<^verbatim>\<open>toString\<close>, and a snapshot whose version is such an object.
\<close>

theorem deserialize_validation_order_witness:
  "JSON_parse sample_runtime ''not json'' = None \<and>
   deserialize_path sample_runtime ''1'' 1000 5000 ''not json'' = DecodeFailed \<and>
   deserialize sample_runtime ''1'' 1000 5000 ''not json'' = None \<and>
   JSON_parse sample_runtime (serialize sample_runtime ''2'' 4500 (JArr [])) =
     Some (persistData ''2'' 4500 (JArr [])) \<and>
   get_prop (persistData ''2'' 4500 (JArr [])) ''version'' \<noteq> Some (JStr ''1'') \<and>
   deserialize_path sample_runtime ''1'' 1000 5000
     (serialize sample_runtime ''2'' 4500 (JArr [])) = VersionMismatch \<and>
   deserialize sample_runtime ''1'' 1000 5000
     (serialize sample_runtime ''2'' 4500 (JArr [])) = None \<and>
   JSON_parse sample_runtime (serialize sample_runtime ''1'' 100 (JArr [])) =
     Some (persistData ''1'' 100 (JArr [])) \<and>
   to_number sample_runtime (get_prop (persistData ''1'' 100 (JArr [])) ''timestamp'') =
     Converts (Integer 100) \<and>
   exceeds sample_runtime 5000 (Integer 100) 1000 \<and>
   deserialize_path sample_runtime ''1'' 1000 5000
     (serialize sample_runtime ''1'' 100 (JArr [])) = Expired \<and>
   deserialize sample_runtime ''1'' 1000 5000
     (serialize sample_runtime ''1'' 100 (JArr [])) = None \<and>
   deserialize_path sample_runtime ''1'' 1000 5000
     (JSON_stringify sample_runtime
        (JObj [(''version'', JStr ''1''), (''timestamp'', JObj [(''toString'', JNum 1)]),
               (''data'', JNum 1)])) = DecodeFailed \<and>
   deserialize_path sample_runtime ''1'' 1000 5000
     (JSON_stringify sample_runtime
        (JObj [(''version'', JObj [(''toString'', JNum 1)]), (''timestamp'', JNum 4500),
               (''data'', JNum 1)])) = DecodeFailed"
proof -
  note order = deserialize_validation_order [of sample_runtime "''1''" 1000 5000]
  have undecoded: "deserialize_path sample_runtime ''1'' 1000 5000 ''not json'' = DecodeFailed"
    using order [of "''not json''"] sample_rejects_text by blast
  have drifted: "deserialize_path sample_runtime ''1'' 1000 5000
      (serialize sample_runtime ''2'' 4500 (JArr [])) = VersionMismatch"
    using order [of "serialize sample_runtime ''2'' 4500 (JArr [])"] sample_reads_back_v2
    by (simp add: persistData_props)
  have old: "deserialize_path sample_runtime ''1'' 1000 5000
      (serialize sample_runtime ''1'' 100 (JArr [])) = Expired"
    using order [of "serialize sample_runtime ''1'' 100 (JArr [])"] sample_reads_back_v1
    by (simp add: persistData_props)
  have unconvertible: "deserialize_path sample_runtime ''1'' 1000 5000
     (JSON_stringify sample_runtime
        (JObj [(''version'', JStr ''1''), (''timestamp'', JObj [(''toString'', JNum 1)]),
               (''data'', JNum 1)])) = DecodeFailed"
    using order [of "JSON_stringify sample_runtime
        (JObj [(''version'', JStr ''1''), (''timestamp'', JObj [(''toString'', JNum 1)]),
               (''data'', JNum 1)])"] sample_reads_back_unconvertible
    by (simp add: sample_conversions)
  have unprintable: "deserialize_path sample_runtime ''1'' 1000 5000
     (JSON_stringify sample_runtime
        (JObj [(''version'', JObj [(''toString'', JNum 1)]), (''timestamp'', JNum 4500),
               (''data'', JNum 1)])) = DecodeFailed"
    using order [of "JSON_stringify sample_runtime
        (JObj [(''version'', JObj [(''toString'', JNum 1)]), (''timestamp'', JNum 4500),
               (''data'', JNum 1)])"] sample_reads_back_unprintable
    by (simp add: sample_conversions)
  show ?thesis
    using undecoded drifted old unconvertible unprintable order [of "''not json''"]
      order [of "serialize sample_runtime ''2'' 4500 (JArr [])"]
      order [of "serialize sample_runtime ''1'' 100 (JArr [])"]
      sample_rejects_text sample_reads_back_v2 sample_reads_back_v1
    by (simp add: persistData_props)
qed

text \<open>
  Claim C1 as stated fails on the first three of these texts: the decode failure, the
  version mismatch and the expiry are three different exits, and the caller receives the
  same value, \<^verbatim>\<open>undefined\<close>, from each.
\<close>

theorem deserialize_causes_indistinguishable:
  "deserialize_path sample_runtime ''1'' 1000 5000 ''not json'' = DecodeFailed \<and>
   deserialize sample_runtime ''1'' 1000 5000 ''not json'' = None \<and>
   deserialize_path sample_runtime ''1'' 1000 5000
     (serialize sample_runtime ''2'' 4500 (JArr [])) = VersionMismatch \<and>
   deserialize sample_runtime ''1'' 1000 5000
     (serialize sample_runtime ''2'' 4500 (JArr [])) = None \<and>
   deserialize_path sample_runtime ''1'' 1000 5000
     (serialize sample_runtime ''1'' 100 (JArr [])) = Expired \<and>
   deserialize sample_runtime ''1'' 1000 5000
     (serialize sample_runtime ''1'' 100 (JArr [])) = None"
  by (simp add: sample_rejects_text sample_reads_back_v2 sample_reads_back_v1
        deserialize_def deserialize_path_undecoded
        deserialize_path_parsed [OF _ persistData_props(4)] persistData_props)

lemma sample_reads_back_snapshot:
  "JSON_parse sample_runtime
     (JSON_stringify sample_runtime
        (persistData ''1'' 1000 (JObj [(''queries'', JArr []), (''mutations'', JArr [])]))) =
   Some (persistData ''1'' 1000 (JObj [(''queries'', JArr []), (''mutations'', JArr [])]))"
  by (simp add: sample_defs)

text \<open>
  Claim C6: for a snapshot that the runtime's JSON functions write and read back, a version
  and a maximal age, \<^verbatim>\<open>deserialize\<close> under the same version, at any time no more than
  the maximal age after serialization, returns exactly the payload.
\<close>

theorem round_trip:
  assumes "JSON_parse rt (JSON_stringify rt (persistData ver t0 payload)) =
             Some (persistData ver t0 payload)"
    and "now - t0 \<le> lim"
  shows "deserialize rt ver lim now (serialize rt ver t0 payload) = Some payload"
  using assms(2) by (simp add: deserialize_def deserialize_path_serialized [OF assms(1)])

theorem round_trip_witness:
  "JSON_parse sample_runtime
     (JSON_stringify sample_runtime
        (persistData ''1'' 1000 (JObj [(''queries'', JArr []), (''mutations'', JArr [])]))) =
   Some (persistData ''1'' 1000 (JObj [(''queries'', JArr []), (''mutations'', JArr [])])) \<and>
   (1400::int) - 1000 \<le> 500 \<and>
   deserialize sample_runtime ''1'' 500 1400
     (serialize sample_runtime ''1'' 1000
        (JObj [(''queries'', JArr []), (''mutations'', JArr [])])) =
   Some (JObj [(''queries'', JArr []), (''mutations'', JArr [])])"
proof -
  have age: "(1400::int) - 1000 \<le> 500" by simp
  from round_trip [OF sample_reads_back_snapshot age] sample_reads_back_snapshot age
  show ?thesis by blast
qed

text \<open>
  Claim C7: the age window includes its upper bound. A snapshot serialized at \<open>t0\<close> and
  read under the same version at exactly \<open>t0 + maxAge\<close> yields its payload; read one
  millisecond later it leaves through the expiry exit and yields \<^verbatim>\<open>undefined\<close>.
\<close>

theorem age_window_inclusive:
  assumes "JSON_parse rt (JSON_stringify rt (persistData ver t0 payload)) =
             Some (persistData ver t0 payload)"
  shows "deserialize rt ver lim (t0 + lim) (serialize rt ver t0 payload) = Some payload \<and>
         deserialize_path rt ver lim (t0 + lim + 1) (serialize rt ver t0 payload) = Expired \<and>
         deserialize rt ver lim (t0 + lim + 1) (serialize rt ver t0 payload) = None"
  by (simp add: deserialize_def deserialize_path_serialized [OF assms])

theorem age_window_inclusive_witness:
  "JSON_parse sample_runtime
     (JSON_stringify sample_runtime
        (persistData ''1'' 1000 (JObj [(''queries'', JArr []), (''mutations'', JArr [])]))) =
   Some (persistData ''1'' 1000 (JObj [(''queries'', JArr []), (''mutations'', JArr [])])) \<and>
   deserialize sample_runtime ''1'' 500 1500
     (serialize sample_runtime ''1'' 1000
        (JObj [(''queries'', JArr []), (''mutations'', JArr [])])) =
   Some (JObj [(''queries'', JArr []), (''mutations'', JArr [])]) \<and>
   deserialize_path sample_runtime ''1'' 500 1501
     (serialize sample_runtime ''1'' 1000
        (JObj [(''queries'', JArr []), (''mutations'', JArr [])])) = Expired \<and>
   deserialize sample_runtime ''1'' 500 1501
     (serialize sample_runtime ''1'' 1000
        (JObj [(''queries'', JArr []), (''mutations'', JArr [])])) = None"
  using age_window_inclusive [OF sample_reads_back_snapshot, of 500] sample_reads_back_snapshot
  by simp

section \<open>Properties of the optimistic update\<close>

lemmas client_defs = cancelQueries_def getQueryData_def setQueryData_def invalidateQueries_def

lemma onMutate_present:
  assumes "cache c (queryKey config) = Some v"
  shows "onMutate config variables c =
           (\<lparr>previousData = Some v\<rparr>,
            case updater config v variables of
              None \<Rightarrow> c\<lparr>cancelled := cancelled c @ [queryKey config]\<rparr>
            | Some w \<Rightarrow>
                c\<lparr>cancelled := cancelled c @ [queryKey config],
                  cache := (cache c)(queryKey config \<mapsto> w),
                  writes := writes c @ [(queryKey config, w)]\<rparr>)"
  using assms by (simp add: onMutate_def client_defs split: option.splits)


lemma rollback_present:
  "rollback config (Some \<lparr>previousData = Some v\<rparr>) c =
     c\<lparr>cache := (cache c)(queryKey config \<mapsto> v),
       writes := writes c @ [(queryKey config, v)]\<rparr>"
  by (simp add: rollback_def client_defs)



lemma onError_every_config:
  "onError config error variables context c =
     (case user_onError config of
        None \<Rightarrow> rollback config context c
      | Some f \<Rightarrow> f error variables context (rollback config context c))"
  by (simp add: onError_def Let_def)

lemma onSettled_every_config:
  "onSettled config data error variables context c =
     (case user_onSettled config of
        None \<Rightarrow>
          (if or_default (invalidateOnSuccess config) True \<and> \<not> truthy error
           then c\<lparr>invalidated := invalidated c @ [queryKey config]\<rparr> else c)
      | Some f \<Rightarrow>
          f data error variables context
            (if or_default (invalidateOnSuccess config) True \<and> \<not> truthy error
             then c\<lparr>invalidated := invalidated c @ [queryKey config]\<rparr> else c))"
  by (simp add: onSettled_def invalidateQueries_def Let_def split: option.splits)

lemma likes_config_fields:
  "queryKey likes_config = ''K''"
  "updater likes_config v d = Some (v + d)"
  "invalidateOnSuccess likes_config = None"
  "user_onError likes_config = None"
  "user_onSettled likes_config = None"
  by (simp_all add: likes_config_def)

lemma idle_config_fields:
  "queryKey idle_config = ''K''"
  "updater idle_config v d = None"
  by (simp_all add: idle_config_def)

text \<open>
  Claim C8, as amended: when the cache holds a value \<open>v\<close> under the key, \<^verbatim>\<open>onMutate\<close>
  snapshots \<open>v\<close> into the context and hands the updater's result to the engine. A result
  other than \<^verbatim>\<open>undefined\<close> is in the cache under the key at once, where any reader
  finds it; for the result \<^verbatim>\<open>undefined\<close> the engine writes nothing and the cache keeps
  \<open>v\<close>. With that context \<^verbatim>\<open>onError\<close>, for every configuration and on every state of the
  client, first writes \<open>v\<close> back under the key and then calls the caller's callback, if
  there is one, on the client so restored; run right after \<^verbatim>\<open>onMutate\<close>, the write
  leaves the cache as it was before the mutation began.
\<close>

theorem optimistic_rollback:
  assumes "cache c (queryKey config) = Some v"
  shows "case onMutate config variables c of
           (ctx, c1) \<Rightarrow>
             previousData ctx = Some v \<and>
             cancelled c1 = cancelled c @ [queryKey config] \<and>
             invalidated c1 = invalidated c \<and>
             (case updater config v variables of
                Some w \<Rightarrow>
                  getQueryData (queryKey config) c1 = Some w \<and>
                  cache c1 = (cache c)(queryKey config \<mapsto> w) \<and>
                  writes c1 = writes c @ [(queryKey config, w)]
              | None \<Rightarrow>
                  getQueryData (queryKey config) c1 = Some v \<and>
                  cache c1 = cache c \<and>
                  writes c1 = writes c) \<and>
             (cache c1)(queryKey config \<mapsto> v) = cache c \<and>
             (\<forall>error c2.
                onError config error variables (Some ctx) c2 =
                  (case user_onError config of
                     None \<Rightarrow>
                       c2\<lparr>cache := (cache c2)(queryKey config \<mapsto> v),
                          writes := writes c2 @ [(queryKey config, v)]\<rparr>
                   | Some f \<Rightarrow>
                       f error variables (Some ctx)
                         (c2\<lparr>cache := (cache c2)(queryKey config \<mapsto> v),
                             writes := writes c2 @ [(queryKey config, v)]\<rparr>)))"
  using assms
  by (auto simp add: onMutate_present rollback_present onError_every_config getQueryData_def
        fun_upd_idem split: option.splits)

theorem optimistic_rollback_witness:
  "cache likes_client (queryKey likes_config) = Some 5 \<and>
   getQueryData ''K'' (snd (onMutate likes_config 1 likes_client)) = Some 6 \<and>
   writes (snd (onMutate likes_config 1 likes_client)) = [(''K'', 6)] \<and>
   getQueryData ''K''
     (onError likes_config offline 1
        (Some (fst (onMutate likes_config 1 likes_client)))
        (snd (onMutate likes_config 1 likes_client))) = Some 5 \<and>
   cache (onError likes_config offline 1
        (Some (fst (onMutate likes_config 1 likes_client)))
        (snd (onMutate likes_config 1 likes_client))) = cache likes_client \<and>
   writes (onError likes_config offline 1
        (Some (fst (onMutate likes_config 1 likes_client)))
        (snd (onMutate likes_config 1 likes_client))) = [(''K'', 6), (''K'', 5)]"
proof -
  have present: "cache likes_client (queryKey likes_config) = Some 5"
    by (simp add: likes_client_def likes_config_fields)
  have start: "writes likes_client = []"
    by (simp add: likes_client_def)
  from optimistic_rollback [OF present, of 1] present start show ?thesis
    by (auto simp add: getQueryData_def likes_config_fields split: prod.splits)
qed

text \<open>
  Claim C8 as stated fails for an updater that returns \<^verbatim>\<open>undefined\<close>: the cache holds
  5 under the key, the mutation begins, and no write is made; a reader still finds 5, not
  the updater's result.
\<close>

theorem optimistic_write_skipped:
  "cache likes_client (queryKey idle_config) = Some 5 \<and>
   updater idle_config 5 1 = None \<and>
   getQueryData ''K'' (snd (onMutate idle_config 1 likes_client)) = Some 5 \<and>
   writes (snd (onMutate idle_config 1 likes_client)) = []"
  by (simp add: onMutate_def client_defs idle_config_fields likes_client_def Let_def)

text \<open>
  Claim C9 fails on the code for a mutation that is rejected with a falsy value, here the
  empty string: \<^verbatim>\<open>onError\<close> rolls the cache back to 5 and \<^verbatim>\<open>onSettled\<close>, whose test is
  \<^verbatim>\<open>!error\<close>, then invalidates the key although the write failed. A rejection with an
  error object is rolled back and not invalidated, and a success is invalidated without a
  write to the cache.
\<close>

theorem falsy_rejection_invalidated:
  "invalidated
     (settle likes_config (Failed (VStr [])) 1
        (Some (fst (onMutate likes_config 1 likes_client)))
        (snd (onMutate likes_config 1 likes_client))) = [''K''] \<and>
   getQueryData ''K''
     (settle likes_config (Failed (VStr [])) 1
        (Some (fst (onMutate likes_config 1 likes_client)))
        (snd (onMutate likes_config 1 likes_client))) = Some 5 \<and>
   invalidated
     (settle likes_config (Failed offline) 1
        (Some (fst (onMutate likes_config 1 likes_client)))
        (snd (onMutate likes_config 1 likes_client))) = [] \<and>
   invalidated
     (settle likes_config (Succeeded 6) 1
        (Some (fst (onMutate likes_config 1 likes_client)))
        (snd (onMutate likes_config 1 likes_client))) = [''K''] \<and>
   writes
     (settle likes_config (Succeeded 6) 1
        (Some (fst (onMutate likes_config 1 likes_client)))
        (snd (onMutate likes_config 1 likes_client))) = [(''K'', 6)]"
  by (simp add: settle_def onSettled_def onError_def rollback_def onMutate_def client_defs
        likes_config_fields likes_client_def offline_def or_default_def Let_def)



end
